theory Spec2Isabelle
  imports Complex_Main "HOL-Library.Multiset" "HOL-Library.Char_ord"
    "HOL-Library.List_Lexorder" "HOL-Library.Product_Lexorder"
begin

section \<open>Life Map Coaching: the event store and the analytics of \<open>app.py\<close>\<close>

text \<open>
  The application is one Streamlit script. Its state is \<open>st.session_state\<close>, holding the
  list \<open>life_events\<close> of event dictionaries and the integer \<open>current_age\<close>. Each page
  of the script reads that state, and its handlers change it: the submit handler of the
  form, the delete button of a row, the two buttons that clear the list, the reflection
  button and the import button.

  Conventions of the embedding:
  \<^item> a Python \<open>str\<close> made of ASCII characters is a \<open>string\<close>; the category labels start
    with an emoji, so a category is the list of its Unicode code points (\<open>pystr\<close>), the
    unit Python compares strings by;
  \<^item> a Python \<open>int\<close> is an \<open>int\<close>;
  \<^item> a Python \<open>float\<close> is \<open>NaN\<close> or an exact real number: rounding is not modelled;
  \<^item> pandas and numpy operations (\<open>mean\<close>, \<open>mode\<close>, \<open>value_counts\<close>, \<open>groupby\<close>,
    \<open>nlargest\<close>, \<open>corr\<close>) are modelled by what their documentation says they return;
  \<^item> an event dictionary is a record with the keys the form writes; the optional keys of
    the advanced section are an optional sub-record.
\<close>

subsection \<open>Data\<close>

type_synonym pystr = "nat list"

definition ascii :: "string \<Rightarrow> pystr" where
  "ascii s = map of_char s"

record advanced_details =
  duration :: string
  people_involved :: string
  location :: string
  tags :: "string list"

record life_event =
  age :: int
  title :: string
  category :: pystr
  description :: string
  sentiment :: string
  impact :: int
  life_area :: string
  lessons_learned :: string
  current_perspective :: string
  timestamp :: string
  range :: string
  advanced :: "advanced_details option"

record session =
  life_events :: "life_event list"
  current_age :: int

text \<open>The state a fresh session starts with (lines 123-126).\<close>

definition initial_session :: session where
  "initial_session = \<lparr>life_events = [], current_age = 25\<rparr>"

datatype py_error = IndexError

text \<open>What a handler shows to the user: \<open>st.success\<close> and \<open>st.error\<close> calls.\<close>

datatype feedback =
    EventAdded string
  | ReflectionSaved
  | Imported nat
  | ImportFailed string

subsection \<open>Age buckets (lines 94-104, 211)\<close>

text \<open>
  \<open>age_buckets\<close> is a dictionary from a label to \<open>list(range(lo, hi + 1))\<close>; a Python
  dictionary iterates in insertion order, so it is an association list here.
\<close>

definition age_buckets :: "(string \<times> int list) list" where
  "age_buckets =
    [(''0-5 (Infancy & Toddler)'', [0..5]),
     (''6-12 (Elementary School)'', [6..12]),
     (''13-17 (Teenage Years)'', [13..17]),
     (''18-22 (College/Early Adult)'', [18..22]),
     (''23-29 (Young Professional)'', [23..29]),
     (''30-39 (Career Building)'', [30..39]),
     (''40-49 (Midlife Growth)'', [40..49]),
     (''50-59 (Mature Wisdom)'', [50..59]),
     (''60+ (Golden Years)'', [60..100])]"

text \<open>\<open>next((k for k, v in items if a in v), default)\<close>: the first matching key.\<close>

fun first_bucket :: "(string \<times> int list) list \<Rightarrow> int \<Rightarrow> string \<Rightarrow> string" where
  "first_bucket [] a dflt = dflt"
| "first_bucket ((k, v) # kvs) a dflt = (if a \<in> set v then k else first_bucket kvs a dflt)"

definition age_bucket :: "int \<Rightarrow> string" where
  "age_bucket a = first_bucket age_buckets a ''Unknown''"

subsection \<open>The event form (lines 150-225)\<close>

text \<open>
  The values the widgets of the form hand to the submit handler. The number input of the
  age is created with \<open>min_value=0, max_value=100\<close> and the slider of the impact with the
  bounds 1 and 10: \<open>widget_form\<close> below says which records of this type the form can
  deliver.
\<close>

text \<open>The options of the three select boxes (lines 107-120, 160, 162-165).\<close>

definition event_categories :: "pystr list" where
  "event_categories =
    [0x1F393 # ascii '' Education & Learning'',
     0x1F4BC # ascii '' Career & Work'',
     0x2764 # 0xFE0F # ascii '' Relationships & Family'',
     0x1F3E5 # ascii '' Health & Wellness'',
     0x1F3AF # ascii '' Personal Achievement'',
     0x1F622 # ascii '' Loss & Grief'',
     0x1F30D # ascii '' Travel & Adventure'',
     0x1F4B0 # ascii '' Financial'',
     0x1F3E0 # ascii '' Living Situation'',
     0x1F3A8 # ascii '' Creative & Hobbies'',
     0x26A1 # ascii '' Life-Changing Moment'',
     0x1F91D # ascii '' Social & Community'']"

definition life_area_options :: "string list" where
  "life_area_options =
    [''Personal Growth'', ''Relationships'', ''Career'', ''Health'', ''Family'',
     ''Education'', ''Finances'', ''Spirituality'', ''Recreation'']"

definition sentiment_options :: "string list" where
  "sentiment_options = [''Positive'', ''Negative'', ''Neutral'', ''Mixed'']"

record event_form =
  event_age :: int
  event_category :: pystr
  event_title :: string
  form_sentiment :: string
  impact_score :: int
  form_life_area :: string
  event_description :: string
  form_lessons_learned :: string
  form_current_perspective :: string
  form_duration :: string
  form_people_involved :: string
  form_location :: string
  form_tags :: string

text \<open>
  What the widgets can deliver: the number input keeps the age within its bounds 0 and
  100, the slider keeps the impact within 1 and 10, and a select box returns one of its
  options. The text inputs are free.
\<close>

definition widget_form :: "event_form \<Rightarrow> bool" where
  "widget_form f =
    (0 \<le> event_age f \<and> event_age f \<le> 100
     \<and> event_category f \<in> set event_categories
     \<and> form_sentiment f \<in> set sentiment_options
     \<and> 1 \<le> impact_score f \<and> impact_score f \<le> 10
     \<and> form_life_area f \<in> set life_area_options)"

text \<open>\<open>s.split(",")\<close> for a non-empty \<open>s\<close>: the pieces between the commas.\<close>

fun split_comma :: "string \<Rightarrow> string list" where
  "split_comma [] = [[]]"
| "split_comma (c # cs) =
    (if c = CHR '','' then [] # split_comma cs
     else (case split_comma cs of [] \<Rightarrow> [[c]] | p # ps \<Rightarrow> (c # p) # ps))"

definition new_event :: "bool \<Rightarrow> string \<Rightarrow> event_form \<Rightarrow> life_event" where
  "new_event show_advanced now f =
    \<lparr>age = event_age f,
     title = event_title f,
     category = event_category f,
     description = event_description f,
     sentiment = form_sentiment f,
     impact = impact_score f,
     life_area = form_life_area f,
     lessons_learned = form_lessons_learned f,
     current_perspective = form_current_perspective f,
     timestamp = now,
     range = age_bucket (event_age f),
     advanced =
       (if show_advanced
        then Some \<lparr>duration = form_duration f,
                   people_involved = form_people_involved f,
                   location = form_location f,
                   tags = (if form_tags f \<noteq> [] then split_comma (form_tags f) else [])\<rparr>
        else None)\<rparr>"

text \<open>
  The submit handler: \<open>if submitted and event_title and event_description\<close>. A Python
  string is true when it is not empty. Nothing in the script raises on the other branch
  and nothing is shown there: the handler returns the session as it was, with no feedback.
  \<open>show_advanced\<close> is the sidebar checkbox and \<open>now\<close> the value of
  \<open>datetime.now().isoformat()\<close>.
\<close>

definition add_event ::
  "bool \<Rightarrow> string \<Rightarrow> bool \<Rightarrow> event_form \<Rightarrow> session \<Rightarrow> session \<times> feedback option" where
  "add_event show_advanced now submitted f s =
    (if submitted \<and> event_title f \<noteq> [] \<and> event_description f \<noteq> []
     then (s\<lparr>life_events := life_events s @ [new_event show_advanced now f],
             current_age := event_age f\<rparr>,
           Some (EventAdded (event_title f)))
     else (s, None))"

text \<open>The default the age input offers (line 155): \<open>value=st.session_state.current_age\<close>.\<close>

definition default_event_age :: "session \<Rightarrow> int" where
  "default_event_age s = current_age s"


subsection \<open>Delete, reflection, import (lines 267-269, 544-560, 759-768)\<close>

text \<open>
  The delete button of a displayed row rebuilds the list without the position \<open>idx\<close>:
  \<open>[e for i, e in enumerate(life_events) if i != idx]\<close>. The rows are displayed, each
  with its button, only when the list is not empty (line 228), and \<open>idx\<close> is the label of
  the row in the frame built from the list, that is, a position of the list.
\<close>

definition delete_event :: "int \<Rightarrow> session \<Rightarrow> session" where
  "delete_event idx s =
    s\<lparr>life_events :=
      map snd (filter (\<lambda>(i, e). int i \<noteq> idx) (enumerate 0 (life_events s)))\<rparr>"


definition reflection_event :: "string \<Rightarrow> string \<Rightarrow> string \<Rightarrow> session \<Rightarrow> life_event" where
  "reflection_event now selected_prompt reflection_text s =
    \<lparr>age = current_age s,
     title = ''Personal Reflection'',
     category = 0x1F9E0 # ascii '' Personal Growth'',
     description = ''Prompt: '' @ selected_prompt @ [CHR 0x0A, CHR 0x0A] @ ''Reflection: ''
       @ reflection_text,
     sentiment = ''Neutral'',
     impact = 5,
     life_area = ''Personal Growth'',
     lessons_learned = [],
     current_perspective = [],
     timestamp = now,
     range = age_bucket (current_age s),
     advanced = None\<rparr>"

text \<open>
  The reflection button (line 544) is on the insights page, which shows it only when the
  list is not empty (line 410); the text must not be empty either.
\<close>

definition save_reflection ::
  "string \<Rightarrow> bool \<Rightarrow> string \<Rightarrow> string \<Rightarrow> session \<Rightarrow> session \<times> feedback option" where
  "save_reflection now clicked selected_prompt reflection_text s =
    (if life_events s \<noteq> [] \<and> clicked \<and> reflection_text \<noteq> []
     then (s\<lparr>life_events := life_events s
               @ [reflection_event now selected_prompt reflection_text s]\<rparr>,
           Some ReflectionSaved)
     else (s, None))"

text \<open>
  The import handler. \<open>json.load\<close> either raises (\<open>Inl\<close>, the message of the exception,
  shown by \<open>st.error\<close>) or returns the decoded list; the model covers files that decode
  to a list of dictionaries with the keys of an event, with any values. When the button
  is clicked the whole list is appended by \<open>extend\<close> and its length is reported.
\<close>

definition import_data ::
  "string + life_event list \<Rightarrow> bool \<Rightarrow> session \<Rightarrow> session \<times> feedback option" where
  "import_data uploaded clicked s =
    (case uploaded of
       Inl e \<Rightarrow> (s, Some (ImportFailed e))
     | Inr imported_data \<Rightarrow>
         if clicked
         then (s\<lparr>life_events := life_events s @ imported_data\<rparr>,
               Some (Imported (length imported_data)))
         else (s, None))"

subsection \<open>Floats and series (pandas, numpy)\<close>

text \<open>
  A float is \<open>NaN\<close> or a number. Every comparison with \<open>NaN\<close> is false, as in Python.
\<close>

datatype pyfloat = NaN | Float real

fun float_less :: "pyfloat \<Rightarrow> pyfloat \<Rightarrow> bool" where
  "float_less (Float x) (Float y) = (x < y)"
| "float_less _ _ = False"

text \<open>\<open>Series.mean()\<close>: the sum over the number of rows; \<open>nan\<close> on an empty series.\<close>

definition mean :: "real list \<Rightarrow> pyfloat" where
  "mean xs = (if xs = [] then NaN else Float (sum_list xs / real (length xs)))"

definition ages :: "life_event list \<Rightarrow> int list" where
  "ages df = map age df"

definition impacts :: "life_event list \<Rightarrow> real list" where
  "impacts df = map (\<lambda>e. real_of_int (impact e)) df"

text \<open>
  \<open>Series.mode()\<close>: the values that occur most often, sorted ascending. For strings
  the order is Python's, code point by code point.
\<close>

definition mode :: "'a::linorder list \<Rightarrow> 'a list" where
  "mode xs =
    (if xs = [] then []
     else sort (remdups (filter (\<lambda>x. count_list xs x = Max (set (map (count_list xs) xs))) xs)))"

text \<open>\<open>.iloc[0]\<close> raises \<open>IndexError\<close> on an empty series.\<close>

definition iloc0 :: "'a list \<Rightarrow> py_error + 'a" where
  "iloc0 xs = (case xs of [] \<Rightarrow> Inl IndexError | x # _ \<Rightarrow> Inr x)"

text \<open>
  \<open>Series.value_counts()\<close>: one row per distinct value, with its number of
  occurrences, in descending order of the counts. The values are counted in order of
  first appearance and the sort keeps rows with equal counts in that order.
\<close>

definition distinct_values :: "'a list \<Rightarrow> 'a list" where
  "distinct_values xs = rev (remdups (rev xs))"

definition value_counts :: "'a list \<Rightarrow> ('a \<times> nat) list" where
  "value_counts xs =
    sort_key (\<lambda>(v, c). - int c) (map (\<lambda>v. (v, count_list xs v)) (distinct_values xs))"

text \<open>\<open>counts.get(label, 0)\<close>.\<close>

definition series_get :: "('a \<times> nat) list \<Rightarrow> 'a \<Rightarrow> nat" where
  "series_get rows label = (case map_of rows label of None \<Rightarrow> 0 | Some c \<Rightarrow> c)"

text \<open>\<open>groupby(keys).size()\<close>: the groups in ascending order of their keys.\<close>

definition groupby_size :: "'k::linorder list \<Rightarrow> ('k \<times> nat) list" where
  "groupby_size ks = map (\<lambda>k. (k, count_list ks k)) (sort (remdups ks))"

text \<open>
  \<open>df.nlargest(n, col)\<close> and \<open>df.nsmallest(n, col)\<close>, with the default
  \<open>keep='first'\<close>: the first \<open>n\<close> rows of the frame sorted on the column (descending,
  ascending), rows with equal values staying in their original order.
\<close>

definition nlargest :: "nat \<Rightarrow> ('a \<Rightarrow> int) \<Rightarrow> 'a list \<Rightarrow> 'a list" where
  "nlargest n col df = take n (sort_key (\<lambda>e. - col e) df)"

definition nsmallest :: "nat \<Rightarrow> ('a \<Rightarrow> int) \<Rightarrow> 'a list \<Rightarrow> 'a list" where
  "nsmallest n col df = take n (sort_key col df)"

text \<open>
  \<open>Series.corr\<close> (Pearson) goes through \<open>numpy.corrcoef\<close>: the covariance matrix with
  the divisor \<open>N - 1\<close>, divided by the two standard deviations, then clipped to
  \<open>[-1, 1]\<close>. With one row the divisor is zero, and with a zero standard deviation the
  covariance is zero as well: both divisions give \<open>nan\<close>. An empty series gives \<open>nan\<close> at
  once.
\<close>

definition deviations :: "real list \<Rightarrow> real list" where
  "deviations xs = map (\<lambda>x. x - sum_list xs / real (length xs)) xs"

definition np_cov :: "real list \<Rightarrow> real list \<Rightarrow> real" where
  "np_cov xs ys =
    (\<Sum>(dx, dy)\<leftarrow>zip (deviations xs) (deviations ys). dx * dy) / (real (length xs) - 1)"

definition np_clip :: "real \<Rightarrow> real" where
  "np_clip r = min 1 (max (- 1) r)"

definition np_corrcoef :: "real list \<Rightarrow> real list \<Rightarrow> pyfloat" where
  "np_corrcoef xs ys =
    (if length xs < 2 then NaN
     else if sqrt (np_cov xs xs) = 0 \<or> sqrt (np_cov ys ys) = 0 then NaN
     else Float (np_clip (np_cov xs ys / sqrt (np_cov xs xs) / sqrt (np_cov ys ys))))"

definition series_corr :: "real list \<Rightarrow> real list \<Rightarrow> pyfloat" where
  "series_corr xs ys = (if xs = [] then NaN else np_corrcoef xs ys)"

subsection \<open>Visual analytics (lines 271-405)\<close>

text \<open>Line 290: \<open>df['category'].mode().iloc[0] if not df.empty else "N/A"\<close>.\<close>

definition most_common_category :: "life_event list \<Rightarrow> py_error + pystr" where
  "most_common_category df =
    (if df \<noteq> [] then iloc0 (mode (map category df)) else Inr (ascii ''N/A''))"

text \<open>Line 287: \<open>df['age'].max() - df['age'].min()\<close>, on a frame with rows.\<close>

definition age_span :: "life_event list \<Rightarrow> int" where
  "age_span df = Max (set (ages df)) - Min (set (ages df))"

definition range_counts :: "life_event list \<Rightarrow> ((string \<times> string) \<times> nat) list" where
  "range_counts df = groupby_size (map (\<lambda>e. (range e, sentiment e)) df)"

definition category_counts :: "life_event list \<Rightarrow> (pystr \<times> nat) list" where
  "category_counts df = value_counts (map category df)"

definition sentiment_counts :: "life_event list \<Rightarrow> (string \<times> nat) list" where
  "sentiment_counts df = value_counts (map sentiment df)"

text \<open>Line 384: \<open>df['age'].corr(df['impact'])\<close>.\<close>

definition correlation :: "life_event list \<Rightarrow> pyfloat" where
  "correlation df = series_corr (map real_of_int (ages df)) (impacts df)"

text \<open>
  What the page computes from the events: the four metrics of the overview, the grouped
  counts behind the charts (the sizes of the groups by age range and sentiment, the
  \<open>value_counts\<close> tables of the categories and of the sentiments, whose rows the pie chart
  takes in their order) and the correlation of the advanced section. The page shows a
  warning and computes nothing when there are no events.
\<close>

record aggregate_snapshot =
  total_events :: nat
  avg_impact :: pyfloat
  span :: int
  top_category :: "py_error + pystr"
  counts_by_range :: "((string \<times> string) \<times> nat) list"
  counts_by_category :: "(pystr \<times> nat) list"
  counts_by_sentiment :: "(string \<times> nat) list"
  age_impact_correlation :: pyfloat

definition visual_analytics :: "life_event list \<Rightarrow> aggregate_snapshot option" where
  "visual_analytics evs =
    (if evs = [] then None
     else Some
       \<lparr>total_events = length evs,
        avg_impact = mean (impacts evs),
        span = age_span evs,
        top_category = most_common_category evs,
        counts_by_range = range_counts evs,
        counts_by_category = category_counts evs,
        counts_by_sentiment = sentiment_counts evs,
        age_impact_correlation = correlation evs\<rparr>)"

subsection \<open>Insights and coaching (lines 407-519)\<close>

text \<open>Line 431: \<open>df['life_area'].mode().iloc[0]\<close>.\<close>

definition top_area :: "life_event list \<Rightarrow> py_error + string" where
  "top_area df = iloc0 (mode (map life_area df))"

datatype trajectory = Increasing | Stabilizing

definition recent_events :: "life_event list \<Rightarrow> life_event list" where
  "recent_events df = nlargest 3 age df"

definition early_events :: "life_event list \<Rightarrow> life_event list" where
  "early_events df = nsmallest 3 age df"

text \<open>Lines 436-445; \<open>None\<close> when the script writes no trajectory line.\<close>

definition growth_trajectory :: "life_event list \<Rightarrow> trajectory option" where
  "growth_trajectory df =
    (if 3 \<le> length df
     then (if float_less (mean (impacts (early_events df))) (mean (impacts (recent_events df)))
           then Some Increasing else Some Stabilizing)
     else None)"

record recommendation =
  area :: string
  advice :: string
  action :: string

definition mindset_recommendation :: recommendation where
  "mindset_recommendation =
    \<lparr>area = ''Mindset & Perspective'',
     advice = ''Practice gratitude journaling to identify more positive moments in your daily life.'',
     action = ''Write down 3 positive things each day for the next week.''\<rparr>"

definition goal_recommendation :: recommendation where
  "goal_recommendation =
    \<lparr>area = ''Goal Setting'',
     advice = ''Set more ambitious goals to create meaningful, high-impact experiences.'',
     action = ''Identify one area where you want to create a significant positive change.''\<rparr>"

definition balance_recommendation :: "string \<Rightarrow> recommendation" where
  "balance_recommendation a =
    \<lparr>area = ''Life Balance'',
     advice = ''You'' @ [CHR 0x27] @ ''re heavily focused on '' @ a
       @ ''. Consider diversifying your experiences.'',
     action = ''Plan one activity in a different life area this month.''\<rparr>"

definition stress_recommendation :: recommendation where
  "stress_recommendation =
    \<lparr>area = ''Stress Management'',
     advice = ''Recent events show some challenges. Focus on stress management and self-care.'',
     action = ''Implement a daily 10-minute mindfulness or relaxation practice.''\<rparr>"

text \<open>Line 485: \<open>(df['sentiment'] == 'Positive').mean()\<close>, the mean of a Boolean column.\<close>

definition positive_ratio :: "life_event list \<Rightarrow> pyfloat" where
  "positive_ratio df = mean (map (\<lambda>e. if sentiment e = ''Positive'' then 1 else 0) df)"

definition rule1 :: "life_event list \<Rightarrow> recommendation list" where
  "rule1 df = (if float_less (positive_ratio df) (Float (4 / 10)) then [mindset_recommendation] else [])"

definition rule2 :: "life_event list \<Rightarrow> recommendation list" where
  "rule2 df =
    (if real (length (filter (\<lambda>e. 8 \<le> impact e) df)) < real (length df) * (3 / 10)
     then [goal_recommendation] else [])"

definition rule3 :: "life_event list \<Rightarrow> py_error + recommendation list" where
  "rule3 df =
    (case value_counts (map life_area df) of
       [] \<Rightarrow> Inl IndexError
     | (a, c) # _ \<Rightarrow>
         Inr (if real (length df) * (5 / 10) < real c then [balance_recommendation a] else []))"

definition rule4 :: "life_event list \<Rightarrow> recommendation list" where
  "rule4 df =
    (if 5 \<le> length df
     then (if 3 \<le> length (filter (\<lambda>e. sentiment e = ''Negative'') (nlargest 5 age df))
           then [stress_recommendation] else [])
     else [])"

text \<open>The list \<open>recommendations\<close> after the four rules, in the order they append.\<close>

definition recommendations :: "life_event list \<Rightarrow> py_error + recommendation list" where
  "recommendations df =
    (case rule3 df of
       Inl e \<Rightarrow> Inl e
     | Inr r3 \<Rightarrow> Inr (rule1 df @ rule2 df @ r3 @ rule4 df))"

subsection \<open>Notions used to state the properties\<close>

text \<open>The highest number of occurrences in a column, and the values that reach it.\<close>

definition top_count :: "'a list \<Rightarrow> nat" where
  "top_count xs = Max (set (map (count_list xs) xs))"

definition tied :: "'a list \<Rightarrow> 'a set" where
  "tied xs = {x \<in> set xs. count_list xs x = top_count xs}"

text \<open>
  The tie-break in the words of the specification: the first value of the fixed
  enumeration among those tied for the highest frequency.
\<close>

definition spec_first_tied :: "'a list \<Rightarrow> 'a list \<Rightarrow> 'a option" where
  "spec_first_tied enumeration xs =
    find (\<lambda>c. c \<in> set xs \<and> count_list xs c = top_count xs) enumeration"

text \<open>
  The Pearson coefficient as the textbooks write it: the sum of the products of the
  deviations over the root of the product of the two sums of squared deviations.
\<close>

definition ssd :: "real list \<Rightarrow> real" where
  "ssd xs = (\<Sum>d\<leftarrow>deviations xs. d\<^sup>2)"

definition codev :: "real list \<Rightarrow> real list \<Rightarrow> real" where
  "codev xs ys = (\<Sum>(dx, dy)\<leftarrow>zip (deviations xs) (deviations ys). dx * dy)"

definition pearson :: "real list \<Rightarrow> real list \<Rightarrow> real" where
  "pearson xs ys = codev xs ys / sqrt (ssd xs * ssd ys)"

subsection \<open>Sample data\<close>

definition sample_event :: "int \<Rightarrow> int \<Rightarrow> string \<Rightarrow> pystr \<Rightarrow> string \<Rightarrow> life_event" where
  "sample_event a i s c l =
    \<lparr>age = a, title = ''Moved house'', category = c, description = ''A new start'',
     sentiment = s, impact = i, life_area = l, lessons_learned = [],
     current_perspective = [], timestamp = ''2024-05-01T10:00:00'', range = age_bucket a,
     advanced = None\<rparr>"

definition plain_event :: "int \<Rightarrow> int \<Rightarrow> life_event" where
  "plain_event a i = sample_event a i ''Neutral'' (event_categories ! 0) ''Career''"

definition sample_form :: "int \<Rightarrow> int \<Rightarrow> string \<Rightarrow> event_form" where
  "sample_form a i t =
    \<lparr>event_age = a, event_category = event_categories ! 0, event_title = t,
     form_sentiment = ''Positive'', impact_score = i, form_life_area = ''Career'',
     event_description = ''A new start'', form_lessons_learned = [],
     form_current_perspective = [], form_duration = ''Moment'', form_people_involved = [],
     form_location = [], form_tags = []\<rparr>"

definition three_events :: "life_event list" where
  "three_events = [plain_event 10 3, plain_event 25 9, plain_event 40 6]"

definition five_events :: "life_event list" where
  "five_events =
    [plain_event 10 2, plain_event 20 2, plain_event 30 2, plain_event 40 8, plain_event 50 8]"

definition tied_events :: "life_event list" where
  "tied_events =
    [sample_event 20 5 ''Positive'' (event_categories ! 0) ''Personal Growth'',
     sample_event 30 5 ''Positive'' (event_categories ! 2) ''Career'']"

definition ten_events :: "nat \<Rightarrow> life_event list" where
  "ten_events k =
    replicate k (sample_event 30 5 ''Positive'' (event_categories ! 0) ''Career'')
    @ replicate (10 - k) (sample_event 30 5 ''Negative'' (event_categories ! 0) ''Career'')"

section \<open>The event store\<close>

subsection \<open>Import\<close>

text \<open>
  Claim C1, as the code has it: the import handler appends every record of the decoded
  list, in input order and without any validation; none is skipped, and the number it
  reports is the length of the list, which is the exact number by which the collection
  grows.
\<close>

theorem import_data_appends_all:
  "import_data (Inr recs) True s =
     (s\<lparr>life_events := life_events s @ recs\<rparr>, Some (Imported (length recs)))
   \<and> length (life_events (fst (import_data (Inr recs) True s)))
       = length (life_events s) + length recs"
  by (simp add: import_data_def)

text \<open>
  Three records of which the second has the impact 99: all three are appended and the
  handler reports 3, where the claim has 2 accepted and the second skipped.
\<close>

theorem import_data_counterexample:
  "import_data (Inr [plain_event 10 3, plain_event 25 99, plain_event 40 6]) True initial_session
     = (\<lparr>life_events = [plain_event 10 3, plain_event 25 99, plain_event 40 6],
          current_age = 25\<rparr>, Some (Imported 3))
   \<and> impact (plain_event 25 99) = 99"
  by (simp add: import_data_def initial_session_def plain_event_def sample_event_def)

subsection \<open>Adding an event\<close>

text \<open>
  Claim C2, as the code has it. The widgets confine the age to 0..100 and the impact to
  1..10, so an age of 150 or an impact of 0 never reaches the submit handler, and every
  event it appends has its age and impact in range. The handler itself tests that the
  form was submitted and that title and description are not empty: when the test fails
  (an empty title, for one) the session is exactly unchanged and nothing is reported, no
  error and no name of a field; when it holds the event is appended.
\<close>

theorem add_event_guard:
  "(add_event adv now submitted f s = (s, None))
     = (\<not> (submitted \<and> event_title f \<noteq> [] \<and> event_description f \<noteq> []))
   \<and> (if submitted \<and> event_title f \<noteq> [] \<and> event_description f \<noteq> []
      then life_events (fst (add_event adv now submitted f s))
             = life_events s @ [new_event adv now f]
      else life_events (fst (add_event adv now submitted f s)) = life_events s)
   \<and> (widget_form f \<longrightarrow>
        0 \<le> age (new_event adv now f) \<and> age (new_event adv now f) \<le> 100
        \<and> 1 \<le> impact (new_event adv now f) \<and> impact (new_event adv now f) \<le> 10)"
  by (simp add: add_event_def new_event_def widget_form_def)

theorem add_event_guard_witness:
  "widget_form (sample_form 30 5 ''Moved house'')
   \<and> add_event False ''t0'' True (sample_form 30 5 ''Moved house'') initial_session
       \<noteq> (initial_session, None)
   \<and> life_events (fst (add_event False ''t0'' True (sample_form 30 5 ''Moved house'')
         initial_session)) = [new_event False ''t0'' (sample_form 30 5 ''Moved house'')]
   \<and> age (new_event False ''t0'' (sample_form 30 5 ''Moved house'')) = 30
   \<and> impact (new_event False ''t0'' (sample_form 30 5 ''Moved house'')) = 5"
  using add_event_guard [where adv = False and now = "''t0''" and submitted = True
      and f = "sample_form 30 5 ''Moved house''" and s = initial_session]
  by (simp add: sample_form_def widget_form_def event_categories_def sentiment_options_def
      life_area_options_def initial_session_def new_event_def)

text \<open>
  A form the widgets can deliver, submitted with an empty title: the handler returns the
  session as it was and no feedback at all, where the claim has an error that names the
  title.
\<close>

theorem add_event_counterexample:
  "widget_form (sample_form 30 5 [])
   \<and> event_title (sample_form 30 5 []) = []
   \<and> add_event False ''t0'' True (sample_form 30 5 []) initial_session
       = (initial_session, None)"
  by (simp add: add_event_def sample_form_def widget_form_def event_categories_def
      sentiment_options_def life_area_options_def)

text \<open>
  Claim C10: a successful submit appends the new record and stores the age of the event
  as \<open>current_age\<close>; that age is the default of the next age input. A reflection saved
  afterwards is appended as the last event, after the new record, and carries that age;
  saving a reflection, in any session with events, appends the reflection event with the
  stored age and leaves the stored age as it is, so the reflections that follow carry it
  too.
\<close>

theorem add_event_sets_current_age:
  assumes "submitted" "event_title f \<noteq> []" "event_description f \<noteq> []"
  shows "life_events (fst (add_event adv now submitted f s))
           = life_events s @ [new_event adv now f]
    \<and> age (new_event adv now f) = event_age f
    \<and> current_age (fst (add_event adv now submitted f s)) = event_age f
    \<and> default_event_age (fst (add_event adv now submitted f s)) = event_age f
    \<and> (words \<noteq> [] \<longrightarrow>
         life_events (fst (save_reflection later True prompt words
             (fst (add_event adv now submitted f s))))
           = life_events s @ [new_event adv now f,
               reflection_event later prompt words (fst (add_event adv now submitted f s))]
         \<and> age (reflection_event later prompt words (fst (add_event adv now submitted f s)))
             = event_age f)
    \<and> (words \<noteq> [] \<and> life_events s2 \<noteq> [] \<longrightarrow>
         life_events (fst (save_reflection later True prompt words s2))
           = life_events s2 @ [reflection_event later prompt words s2]
         \<and> age (reflection_event later prompt words s2) = current_age s2)
    \<and> current_age (fst (save_reflection later clicked prompt words s2)) = current_age s2"
  using assms
  by (simp add: add_event_def new_event_def default_event_age_def reflection_event_def
      save_reflection_def)

theorem add_event_sets_current_age_witness:
  "current_age (fst (add_event False ''t0'' True (sample_form 42 7 ''Moved house'')
      initial_session)) = 42
   \<and> life_events (fst (save_reflection ''t1'' True ''Why?'' ''Because''
        (fst (add_event False ''t0'' True (sample_form 42 7 ''Moved house'')
          initial_session))))
       = [new_event False ''t0'' (sample_form 42 7 ''Moved house''),
          reflection_event ''t1'' ''Why?'' ''Because''
            (fst (add_event False ''t0'' True (sample_form 42 7 ''Moved house'')
              initial_session))]
   \<and> age (reflection_event ''t1'' ''Why?'' ''Because''
        (fst (add_event False ''t0'' True (sample_form 42 7 ''Moved house'')
          initial_session))) = 42
   \<and> current_age (fst (save_reflection ''t1'' True ''Why?'' ''Because''
        (fst (add_event False ''t0'' True (sample_form 42 7 ''Moved house'')
          initial_session)))) = 42"
  using add_event_sets_current_age [where submitted = True
      and f = "sample_form 42 7 ''Moved house''" and adv = False and now = "''t0''"
      and s = initial_session and later = "''t1''" and prompt = "''Why?''"
      and words = "''Because''" and clicked = True
      and ?s2.0 = "fst (add_event False ''t0'' True (sample_form 42 7 ''Moved house'')
        initial_session)"]
  by (simp add: sample_form_def initial_session_def)

subsection \<open>Deleting an event\<close>

lemma enumerate_filter_out_of_range:
  "idx < int n \<or> int n + int (length xs) \<le> idx \<Longrightarrow>
    map snd (filter (\<lambda>(i, e). int i \<noteq> idx) (enumerate n xs)) = xs"
  by (induction xs arbitrary: n) auto

lemma enumerate_filter_in_range:
  "k < length xs \<Longrightarrow>
    map snd (filter (\<lambda>(i, e). int i \<noteq> int (n + k)) (enumerate n xs))
      = take k xs @ drop (Suc k) xs"
proof (induction xs arbitrary: n k)
  case Nil
  then show ?case by simp
next
  case (Cons x xs)
  show ?case
  proof (cases k)
    case 0
    then show ?thesis
      using enumerate_filter_out_of_range [of "int n" "Suc n" xs] by simp
  next
    case (Suc j)
    then have "j < length xs" using Cons.prems by simp
    from Cons.IH [OF this, of "Suc n"] Suc show ?thesis by simp
  qed
qed

text \<open>
  The button of the row at position \<open>k\<close> removes exactly that event; the stored age is
  not touched.
\<close>

lemma delete_event_removes_row:
  "k < length (life_events s) \<Longrightarrow>
    delete_event (int k) s
      = s\<lparr>life_events := take k (life_events s) @ drop (Suc k) (life_events s)\<rparr>"
  using enumerate_filter_in_range [of k "life_events s" 0]
  by (simp add: delete_event_def)

subsection \<open>Age buckets\<close>

lemma age_bucket_cases:
  "age_bucket a =
    (if a < 0 then ''Unknown''
     else if a \<le> 5 then ''0-5 (Infancy & Toddler)''
     else if a \<le> 12 then ''6-12 (Elementary School)''
     else if a \<le> 17 then ''13-17 (Teenage Years)''
     else if a \<le> 22 then ''18-22 (College/Early Adult)''
     else if a \<le> 29 then ''23-29 (Young Professional)''
     else if a \<le> 39 then ''30-39 (Career Building)''
     else if a \<le> 49 then ''40-49 (Midlife Growth)''
     else if a \<le> 59 then ''50-59 (Mature Wisdom)''
     else if a \<le> 100 then ''60+ (Golden Years)''
     else ''Unknown'')"
  by (simp add: age_bucket_def age_buckets_def del: upto_rec_numeral)






text \<open>
  Outside 0..100 no bucket holds the age and \<open>next\<close> falls back on its default; by the
  three lemmas above neither caller of the lookup passes such an age.
\<close>

lemma age_bucket_default: "a < 0 \<or> 100 < a \<Longrightarrow> age_bucket a = ''Unknown''"
  by (auto simp: age_bucket_cases)



section \<open>Series operations\<close>

subsection \<open>The mode\<close>

lemma tied_nonempty: "xs \<noteq> [] \<Longrightarrow> tied xs \<noteq> {}"
proof -
  assume "xs \<noteq> []"
  then have "count_list xs ` set xs \<noteq> {}" by simp
  then have "Max (count_list xs ` set xs) \<in> count_list xs ` set xs"
    by (intro Max_in) auto
  then show ?thesis by (auto simp: tied_def top_count_def)
qed

lemma mode_sorted_list: "xs \<noteq> [] \<Longrightarrow> mode xs = sorted_list_of_set (tied xs)"
  by (simp add: mode_def tied_def top_count_def sorted_list_of_set_sort_remdups [symmetric])

lemma iloc0_sorted_list:
  "finite A \<Longrightarrow> A \<noteq> {} \<Longrightarrow> iloc0 (sorted_list_of_set A) = Inr (Min A)"
  by (simp add: iloc0_def sorted_list_of_set_nonempty)

lemma iloc0_mode: "xs \<noteq> [] \<Longrightarrow> iloc0 (mode xs) = Inr (Min (tied xs))"
  using tied_nonempty [of xs] by (simp add: mode_sorted_list iloc0_sorted_list tied_def)

lemma count_list_perm: "mset xs = mset ys \<Longrightarrow> count_list xs = count_list ys"
  by (metis count_mset ext)

lemma tied_perm: "mset xs = mset ys \<Longrightarrow> tied xs = tied ys"
  using count_list_perm [of xs ys] mset_eq_setD [of xs ys]
  by (simp add: tied_def top_count_def)

lemma mode_perm: "mset xs = mset ys \<Longrightarrow> mode xs = mode ys"
  using tied_perm [of xs ys] mode_sorted_list [of xs] mode_sorted_list [of ys]
  by (cases "xs = []") (auto simp: mode_def)


subsection \<open>The Cauchy-Schwarz inequality for lists of pairs\<close>

lemma sum_list_quadratic:
  "(\<Sum>(a, b)\<leftarrow>ps. (p * b - q * a)\<^sup>2) =
     p\<^sup>2 * (\<Sum>(a, b)\<leftarrow>ps. b\<^sup>2) - 2 * p * q * (\<Sum>(a, b)\<leftarrow>ps. a * b)
       + q\<^sup>2 * (\<Sum>(a, b)\<leftarrow>ps. a\<^sup>2)"
  for p q :: real
  by (induction ps) (auto simp: algebra_simps power2_eq_square)

lemma sum_list_squares_nonneg: "0 \<le> (\<Sum>(a, b)\<leftarrow>ps. (f a b :: real)\<^sup>2)"
  by (induction ps) auto

lemma sum_list_squares_zero:
  "(\<Sum>(a, b)\<leftarrow>ps. (a::real)\<^sup>2) = 0 \<Longrightarrow> (\<Sum>(a, b)\<leftarrow>ps. a * b) = 0"
proof (induction ps)
  case Nil
  then show ?case by simp
next
  case (Cons x ps)
  obtain a b where x: "x = (a, b)" by (cases x)
  have nn: "0 \<le> (\<Sum>(a, b)\<leftarrow>ps. a\<^sup>2)"
    using sum_list_squares_nonneg [of "\<lambda>a b. a" ps] by simp
  from Cons.prems x have "a\<^sup>2 + (\<Sum>(a, b)\<leftarrow>ps. a\<^sup>2) = 0" by simp
  with nn have "a = 0" and "(\<Sum>(a, b)\<leftarrow>ps. a\<^sup>2) = 0"
    by (simp_all add: add_nonneg_eq_0_iff)
  with Cons.IH x show ?case by simp
qed

lemma cauchy_schwarz_list:
  "(\<Sum>(a, b)\<leftarrow>ps. a * b)\<^sup>2 \<le> (\<Sum>(a, b)\<leftarrow>ps. a\<^sup>2) * (\<Sum>(a, b)\<leftarrow>ps. (b::real)\<^sup>2)"
proof -
  define A where "A = (\<Sum>(a, b)\<leftarrow>ps. a\<^sup>2)"
  define B where "B = (\<Sum>(a, b)\<leftarrow>ps. b\<^sup>2)"
  define C where "C = (\<Sum>(a, b)\<leftarrow>ps. a * b)"
  have A0: "0 \<le> A"
    unfolding A_def using sum_list_squares_nonneg [of "\<lambda>a b. a" ps] by simp
  have B0: "0 \<le> B"
    unfolding B_def using sum_list_squares_nonneg [of "\<lambda>a b. b" ps] by simp
  show ?thesis
  proof (cases "A = 0")
    case True
    then have "C = 0" unfolding A_def C_def by (rule sum_list_squares_zero)
    with True show ?thesis unfolding A_def [symmetric] B_def [symmetric] C_def [symmetric] by simp
  next
    case False
    with A0 have Apos: "0 < A" by simp
    have "0 \<le> (\<Sum>(a, b)\<leftarrow>ps. (A * b - C * a)\<^sup>2)"
      using sum_list_squares_nonneg [of "\<lambda>a b. A * b - C * a" ps] by simp
    also have "\<dots> = A\<^sup>2 * B - 2 * A * C * C + C\<^sup>2 * A"
      unfolding sum_list_quadratic A_def [symmetric] B_def [symmetric] C_def [symmetric] ..
    also have "\<dots> = A * (A * B - C\<^sup>2)"
      by (simp add: algebra_simps power2_eq_square)
    finally have "0 \<le> A * B - C\<^sup>2"
      using Apos by (simp add: zero_le_mult_iff)
    then show ?thesis unfolding A_def [symmetric] B_def [symmetric] C_def [symmetric] by simp
  qed
qed


subsection \<open>The correlation is the Pearson coefficient\<close>

lemma length_deviations: "length (deviations xs) = length xs"
  by (simp add: deviations_def)

lemma sum_zip_fst:
  "length as = length bs \<Longrightarrow> (\<Sum>(a, b)\<leftarrow>zip as bs. f a) = (\<Sum>a\<leftarrow>as. (f a :: real))"
  by (induction as bs rule: list_induct2) auto

lemma sum_zip_snd:
  "length as = length bs \<Longrightarrow> (\<Sum>(a, b)\<leftarrow>zip as bs. f b) = (\<Sum>b\<leftarrow>bs. (f b :: real))"
  by (induction as bs rule: list_induct2) auto

lemma sum_zip_same: "(\<Sum>(a, b)\<leftarrow>zip as as. f a b) = (\<Sum>a\<leftarrow>as. (f a a :: real))"
  by (induction as) auto

lemma np_cov_self: "np_cov xs xs = ssd xs / (real (length xs) - 1)"
  by (simp add: np_cov_def ssd_def sum_zip_same power2_eq_square)

lemma np_cov_codev: "np_cov xs ys = codev xs ys / (real (length xs) - 1)"
  by (simp add: np_cov_def codev_def)

lemma ssd_nonneg: "0 \<le> ssd xs"
  unfolding ssd_def by (rule sum_list_nonneg) auto

lemma codev_bound:
  assumes "length xs = length ys"
  shows "(codev xs ys)\<^sup>2 \<le> ssd xs * ssd ys"
proof -
  let ?ps = "zip (deviations xs) (deviations ys)"
  have len: "length (deviations xs) = length (deviations ys)"
    using assms by (simp add: length_deviations)
  have "(\<Sum>(a, b)\<leftarrow>?ps. a\<^sup>2) = ssd xs"
    unfolding ssd_def using sum_zip_fst [OF len, of "\<lambda>a. a\<^sup>2"] .
  moreover have "(\<Sum>(a, b)\<leftarrow>?ps. b\<^sup>2) = ssd ys"
    unfolding ssd_def using sum_zip_snd [OF len, of "\<lambda>b. b\<^sup>2"] .
  ultimately show ?thesis
    using cauchy_schwarz_list [of ?ps] by (simp add: codev_def)
qed

lemma pearson_in_range:
  assumes "length xs = length ys" "ssd xs \<noteq> 0" "ssd ys \<noteq> 0"
  shows "\<bar>pearson xs ys\<bar> \<le> 1"
proof -
  have pos: "0 < ssd xs * ssd ys"
    using assms ssd_nonneg [of xs] ssd_nonneg [of ys] by (simp add: zero_less_mult_iff less_le)
  have "\<bar>codev xs ys\<bar> = sqrt ((codev xs ys)\<^sup>2)" by simp
  also have "\<dots> \<le> sqrt (ssd xs * ssd ys)"
    using codev_bound [OF assms(1)] by (simp only: real_sqrt_le_iff)
  finally show ?thesis
    using pos by (simp add: pearson_def)
qed

text \<open>
  Where a column has no variance the covariance is zero too, so the division by the zero
  standard deviation in \<open>numpy.corrcoef\<close> is \<open>0 / 0\<close>, which is \<open>nan\<close>.
\<close>

lemma zero_variance_zero_covariance:
  assumes "length xs = length ys" "ssd xs = 0 \<or> ssd ys = 0"
  shows "np_cov xs ys = 0"
proof -
  have "(codev xs ys)\<^sup>2 \<le> 0"
    using codev_bound [OF assms(1)] assms(2) by auto
  then have "codev xs ys = 0" by simp
  then show ?thesis by (simp add: np_cov_codev)
qed

lemma np_clip_id: "\<bar>r\<bar> \<le> 1 \<Longrightarrow> np_clip r = r"
  by (auto simp: np_clip_def min_def max_def)

lemma scaled_ratio: "0 < s \<Longrightarrow> (c / (s * s)) / (a / s) / (b / s) = c / (a * b)" for s :: real
  by (simp add: field_simps)

lemma np_corrcoef_pearson:
  assumes "length xs = length ys"
  shows "np_corrcoef xs ys =
    (if length xs < 2 \<or> ssd xs = 0 \<or> ssd ys = 0 then NaN else Float (pearson xs ys))"
proof (cases "length xs < 2")
  case True
  then show ?thesis by (simp add: np_corrcoef_def)
next
  case False
  then have n: "0 < real (length xs) - 1" "0 < real (length ys) - 1"
    using assms by auto
  show ?thesis
  proof (cases "ssd xs = 0 \<or> ssd ys = 0")
    case True
    then show ?thesis
      using n by (auto simp: np_corrcoef_def np_cov_self)
  next
    case nz: False
    define m where "m = real (length xs) - 1"
    have m: "0 < m" "real (length ys) - 1 = m"
      using n assms by (simp_all add: m_def)
    have mm: "m = sqrt m * sqrt m" using m by simp
    have "np_cov xs ys / sqrt (np_cov xs xs) / sqrt (np_cov ys ys)
        = (codev xs ys / m) / (sqrt (ssd xs) / sqrt m) / (sqrt (ssd ys) / sqrt m)"
      using m by (simp add: np_cov_self np_cov_codev m_def [symmetric] real_sqrt_divide)
    also have "\<dots> = (codev xs ys / (sqrt m * sqrt m)) / (sqrt (ssd xs) / sqrt m) / (sqrt (ssd ys) / sqrt m)"
      using mm by simp
    also have "\<dots> = codev xs ys / (sqrt (ssd xs) * sqrt (ssd ys))"
      using m by (intro scaled_ratio) simp
    also have "\<dots> = pearson xs ys"
      by (simp add: pearson_def real_sqrt_mult)
    finally have "np_cov xs ys / sqrt (np_cov xs xs) / sqrt (np_cov ys ys) = pearson xs ys" .
    moreover have "np_clip (pearson xs ys) = pearson xs ys"
      using nz pearson_in_range [OF assms] by (simp add: np_clip_id)
    ultimately show ?thesis
      using nz False n by (simp add: np_corrcoef_def np_cov_self)
  qed
qed


subsection \<open>Largest and smallest rows\<close>

lemma sorted_take_drop:
  assumes "sorted (map f s)" "r \<in> set (take n s)" "e \<in> set (drop n s)"
  shows "f r \<le> f e"
proof -
  have "sorted (map f (take n s) @ map f (drop n s))"
    using assms(1) by (simp flip: map_append)
  then show ?thesis
    using assms(2,3) by (auto simp: sorted_append)
qed

lemma mset_minus_take:
  "mset s = mset df \<Longrightarrow> mset df - mset (take n s) = mset (drop n s)"
  by (metis add_diff_cancel_left' append_take_drop_id mset_append)

lemma nsmallest_rest:
  assumes "r \<in> set (nsmallest n col df)" "e \<in># mset df - mset (nsmallest n col df)"
  shows "col r \<le> col e"
proof -
  let ?s = "sort_key col df"
  have "mset df - mset (take n ?s) = mset (drop n ?s)"
    by (rule mset_minus_take) simp
  then have "e \<in> set (drop n ?s)"
    using assms(2) by (simp add: nsmallest_def)
  then show ?thesis
    using assms(1) sorted_take_drop [of col ?s r n e] by (simp add: nsmallest_def)
qed

lemma nlargest_rest:
  assumes "r \<in> set (nlargest n col df)" "e \<in># mset df - mset (nlargest n col df)"
  shows "col e \<le> col r"
proof -
  let ?s = "sort_key (\<lambda>x. - col x) df"
  have "mset df - mset (take n ?s) = mset (drop n ?s)"
    by (rule mset_minus_take) simp
  then have "e \<in> set (drop n ?s)"
    using assms(2) by (simp add: nlargest_def)
  then show ?thesis
    using assms(1) sorted_take_drop [of "\<lambda>x. - col x" ?s r n e] by (simp add: nlargest_def)
qed

lemma mset_take_sort: "mset (take n (sort_key f df)) \<subseteq># mset df"
proof -
  have "mset (take n (sort_key f df)) \<subseteq># mset (sort_key f df)"
    by (metis append_take_drop_id mset_append mset_subset_eq_add_left)
  then show ?thesis by simp
qed

lemma nlargest_sub: "mset (nlargest n col df) \<subseteq># mset df"
  unfolding nlargest_def by (rule mset_take_sort)

lemma nsmallest_sub: "mset (nsmallest n col df) \<subseteq># mset df"
  unfolding nsmallest_def by (rule mset_take_sort)

lemma length_nlargest: "length (nlargest n col df) = min n (length df)"
  by (simp add: nlargest_def min.commute)

lemma length_nsmallest: "length (nsmallest n col df) = min n (length df)"
  by (simp add: nsmallest_def min.commute)

lemma mean_three: "length xs = 3 \<Longrightarrow> mean xs = Float (sum_list xs / 3)"
  by (auto simp: mean_def)

lemma growth_trajectory_eq:
  "3 \<le> length df \<Longrightarrow> growth_trajectory df =
     Some (if sum_list (impacts (early_events df)) / 3 < sum_list (impacts (recent_events df)) / 3
           then Increasing else Stabilizing)"
proof -
  assume a: "3 \<le> length df"
  then have "length (impacts (early_events df)) = 3" "length (impacts (recent_events df)) = 3"
    by (simp_all add: impacts_def early_events_def recent_events_def length_nlargest
        length_nsmallest)
  then have "mean (impacts (early_events df)) = Float (sum_list (impacts (early_events df)) / 3)"
    "mean (impacts (recent_events df)) = Float (sum_list (impacts (recent_events df)) / 3)"
    by (simp_all only: mean_three)
  then show ?thesis using a by (simp add: growth_trajectory_def)
qed


subsection \<open>Ratios and rules\<close>

lemma sum_indicator:
  "(\<Sum>e\<leftarrow>df. if P e then 1 else 0) = real (length (filter P df))"
  by (induction df) auto

lemma positive_ratio_eq:
  "df \<noteq> [] \<Longrightarrow> positive_ratio df =
     Float (real (length (filter (\<lambda>e. sentiment e = ''Positive'') df)) / real (length df))"
  by (simp add: positive_ratio_def mean_def sum_indicator)

lemma value_counts_nonempty: "xs \<noteq> [] \<Longrightarrow> value_counts xs \<noteq> []"
proof -
  assume "xs \<noteq> []"
  then have "distinct_values xs \<noteq> []"
    by (simp add: distinct_values_def)
  then have "length (value_counts xs) \<noteq> 0"
    by (simp add: value_counts_def)
  then show ?thesis by auto
qed

lemma rule3_defined: "df \<noteq> [] \<Longrightarrow> \<exists>r3. rule3 df = Inr r3"
  using value_counts_nonempty [of "map life_area df"]
  by (auto simp: rule3_def split: list.splits)

lemma rule1_iff:
  "df \<noteq> [] \<Longrightarrow> mindset_recommendation \<in> set (rule1 df) \<longleftrightarrow>
     real (length (filter (\<lambda>e. sentiment e = ''Positive'') df)) / real (length df) < 4 / 10"
  by (simp add: rule1_def positive_ratio_eq)


lemma mindset_area: "area mindset_recommendation = ''Mindset & Perspective''"
  by (simp add: mindset_recommendation_def)

lemma rule2_area: "mindset_recommendation \<notin> set (rule2 df)"
proof -
  have "area goal_recommendation \<noteq> area mindset_recommendation"
    by (simp add: mindset_recommendation_def goal_recommendation_def)
  then have "mindset_recommendation \<noteq> goal_recommendation" by metis
  then show ?thesis by (simp add: rule2_def)
qed

lemma rule4_area: "mindset_recommendation \<notin> set (rule4 df)"
proof -
  have "area stress_recommendation \<noteq> area mindset_recommendation"
    by (simp add: mindset_recommendation_def stress_recommendation_def)
  then have "mindset_recommendation \<noteq> stress_recommendation" by metis
  then show ?thesis by (simp add: rule4_def)
qed

lemma rule3_area: "rule3 df = Inr r3 \<Longrightarrow> mindset_recommendation \<notin> set r3"
proof -
  have "area (balance_recommendation a) \<noteq> area mindset_recommendation" for a
    by (simp add: mindset_recommendation_def balance_recommendation_def)
  then have "mindset_recommendation \<noteq> balance_recommendation a" for a by metis
  then show "rule3 df = Inr r3 \<Longrightarrow> mindset_recommendation \<notin> set r3"
    by (auto simp: rule3_def split: list.splits if_splits)
qed

lemma recommendations_rule1:
  assumes "df \<noteq> []"
  shows "case recommendations df of
      Inl err \<Rightarrow> False
    | Inr recs \<Rightarrow>
        (mindset_recommendation \<in> set recs \<longleftrightarrow>
          real (length (filter (\<lambda>e. sentiment e = ''Positive'') df)) / real (length df) < 4 / 10)"
proof -
  obtain r3 where r3: "rule3 df = Inr r3" using rule3_defined [OF assms] by blast
  then have "recommendations df = Inr (rule1 df @ rule2 df @ r3 @ rule4 df)"
    by (simp add: recommendations_def)
  then show ?thesis
    using rule1_iff [OF assms] rule2_area [of df] rule3_area [OF r3] rule4_area [of df]
    by simp
qed


subsection \<open>Permutations of the collection\<close>

lemma sum_list_perm: "mset xs = mset ys \<Longrightarrow> sum_list (map f xs) = sum_list (map (f :: 'a \<Rightarrow> real) ys)"
  by (metis mset_map sum_mset_sum_list)

lemma length_perm: "mset xs = mset ys \<Longrightarrow> length xs = length ys"
  by (metis size_mset)

lemma mean_perm: "mset xs = mset ys \<Longrightarrow> mean (map f xs) = mean (map f ys)"
  using sum_list_perm [of xs ys f] length_perm [of xs ys]
  by (auto simp: mean_def)

lemma groupby_size_perm: "mset xs = mset ys \<Longrightarrow> groupby_size xs = groupby_size ys"
  using count_list_perm [of xs ys] mset_eq_setD [of xs ys]
  by (simp add: groupby_size_def sorted_list_of_set_sort_remdups [symmetric])

lemma set_distinct_values: "set (distinct_values xs) = set xs"
  by (simp add: distinct_values_def)

lemma distinct_distinct_values: "distinct (distinct_values xs)"
  by (simp add: distinct_values_def)


lemma series_get_value_counts: "series_get (value_counts xs) v = count_list xs v"
proof -
  let ?rows = "map (\<lambda>v. (v, count_list xs v)) (distinct_values xs)"
  have d1: "distinct (map fst ?rows)"
    by (simp add: comp_def distinct_distinct_values)
  have "mset (map fst (value_counts xs)) = mset (map fst ?rows)"
    unfolding value_counts_def mset_map mset_sort ..
  then have d2: "distinct (map fst (value_counts xs))"
    using d1 mset_eq_imp_distinct_iff by blast
  have "set (value_counts xs) = set ?rows"
    unfolding value_counts_def set_sort ..
  then have "map_of (value_counts xs) = map_of ?rows"
    using d1 d2 map_of_inject_set by blast
  then have "map_of (value_counts xs) v = (if v \<in> set xs then Some (count_list xs v) else None)"
    by (simp add: map_of_map_restrict restrict_map_def set_distinct_values)
  then show ?thesis
    by (simp add: series_get_def count_list_0_iff)
qed

lemma deviations_map:
  "deviations (map f df) = map (\<lambda>e. f e - sum_list (map f df) / real (length df)) df"
  by (simp add: deviations_def comp_def)

lemma np_cov_map:
  "np_cov (map f df) (map g df) =
    (\<Sum>e\<leftarrow>df. (f e - sum_list (map f df) / real (length df))
             * (g e - sum_list (map g df) / real (length df))) / (real (length df) - 1)"
  by (simp add: np_cov_def deviations_map zip_map_map zip_same_conv_map comp_def)


lemma np_cov_perm:
  assumes "mset xs = mset ys"
  shows "np_cov (map f xs) (map g xs) = np_cov (map f ys) (map g ys)"
proof -
  have l: "length xs = length ys" by (rule length_perm [OF assms])
  have sf: "sum_list (map f xs) = sum_list (map f ys)" by (rule sum_list_perm [OF assms])
  have sg: "sum_list (map g xs) = sum_list (map g ys)" by (rule sum_list_perm [OF assms])
  have "sum_list (map h xs) = sum_list (map h ys)" for h :: "'a \<Rightarrow> real"
    by (rule sum_list_perm [OF assms])
  then show ?thesis
    unfolding np_cov_map l sf sg by (simp only:)
qed

lemma series_corr_perm:
  assumes "mset xs = mset ys"
  shows "series_corr (map f xs) (map g xs) = series_corr (map f ys) (map g ys)"
proof -
  have l: "length xs = length ys" by (rule length_perm [OF assms])
  then have e: "(xs = []) = (ys = [])" by auto
  show ?thesis
    unfolding series_corr_def np_corrcoef_def length_map map_is_Nil_conv
      np_cov_perm [OF assms, of f g] np_cov_perm [OF assms, of f f]
      np_cov_perm [OF assms, of g g] l e ..
qed


section \<open>Analytics, patterns and recommendations\<close>

subsection \<open>Sample computations\<close>

lemma tied_events_categories: "map category tied_events = [event_categories ! 0, event_categories ! 2]"
  by (simp add: tied_events_def sample_event_def)

lemma tied_categories_order: "event_categories ! 0 \<noteq> event_categories ! 2"
  "event_categories ! 2 < event_categories ! 0"
  by (simp_all add: event_categories_def)

lemma tied_of_categories: "tied [event_categories ! 0, event_categories ! 2] = {event_categories ! 0, event_categories ! 2}"
  using tied_categories_order by (auto simp: tied_def top_count_def)

lemma most_common_category_tied_events: "most_common_category tied_events = Inr (event_categories ! 2)"
proof -
  have "tied_events \<noteq> []" by (simp add: tied_events_def)
  then show ?thesis
    using tied_categories_order(2) not_le [of "event_categories ! 0" "event_categories ! 2"]
    by (simp add: most_common_category_def tied_events_categories iloc0_mode
        tied_of_categories min_def)
qed

lemma spec_first_tied_categories: "spec_first_tied event_categories (map category tied_events) = Some (event_categories ! 0)"
  unfolding tied_events_categories using tied_categories_order(1)
  by (simp add: spec_first_tied_def top_count_def event_categories_def)


lemma tied_events_areas: "map life_area tied_events = [''Personal Growth'', ''Career'']"
  by (simp add: tied_events_def sample_event_def)

lemma career_before_personal_growth: "''Career'' < ''Personal Growth''"
  by simp

lemma tied_of_areas: "tied [''Personal Growth'', ''Career''] = {''Personal Growth'', ''Career''}"
  by (auto simp: tied_def top_count_def)

lemma top_area_tied_events: "top_area tied_events = Inr ''Career''"
  using career_before_personal_growth not_le [of "''Personal Growth''" "''Career''"]
  by (simp add: top_area_def tied_events_areas iloc0_mode tied_of_areas min_def)

lemma spec_first_tied_areas: "spec_first_tied life_area_options (map life_area tied_events) = Some ''Personal Growth''"
  unfolding tied_events_areas
  by (simp add: spec_first_tied_def top_count_def life_area_options_def)

lemma impacts_three: "impacts three_events = [3, 9, 6]"
  by (simp add: impacts_def three_events_def plain_event_def sample_event_def)

lemma ages_three: "map real_of_int (ages three_events) = [10, 25, 40]"
  by (simp add: ages_def three_events_def plain_event_def sample_event_def)

lemma mean_three_events: "mean (impacts three_events) = Float 6"
  by (simp add: impacts_three mean_def)

lemma dev_ages: "deviations [10, 25, 40] = [- 15, 0, 15]"
  by (simp add: deviations_def)

lemma dev_impacts: "deviations [3, 9, 6] = [- 3, 3, 0]"
  by (simp add: deviations_def)

lemma sqrt_8100: "sqrt 8100 = 90"
  by (rule real_sqrt_unique) simp_all

lemma pearson_three: "pearson [10, 25, 40] [3, 9, 6] = 1 / 2"
  by (simp add: pearson_def codev_def ssd_def dev_ages dev_impacts sqrt_8100)

lemma ssd_three: "ssd [10, 25, 40] = 450" "ssd [3, 9, 6] = 18"
  by (simp_all add: ssd_def dev_ages dev_impacts)

lemma correlation_three: "correlation three_events = Float (1 / 2)"
  using np_corrcoef_pearson [of "[10, 25, 40]" "[3, 9, 6]"]
  by (simp add: correlation_def series_corr_def ages_three impacts_three ssd_three pearson_three)

lemma plain_event_sel: "age (plain_event a i) = a" "impact (plain_event a i) = i"
  by (simp_all add: plain_event_def sample_event_def)

lemma recent_five: "recent_events five_events = [plain_event 50 8, plain_event 40 8, plain_event 30 2]"
  by (simp add: recent_events_def nlargest_def five_events_def plain_event_sel)

lemma early_five: "early_events five_events = [plain_event 10 2, plain_event 20 2, plain_event 30 2]"
  by (simp add: early_events_def nsmallest_def five_events_def plain_event_sel)

lemma mean_recent_five: "mean (impacts (recent_events five_events)) = Float 6"
  by (simp add: recent_five impacts_def mean_def plain_event_sel)

lemma mean_early_five: "mean (impacts (early_events five_events)) = Float 2"
  by (simp add: early_five impacts_def mean_def plain_event_sel)

lemma length_five: "length five_events = 5"
  by (simp add: five_events_def)

lemma trajectory_five: "growth_trajectory five_events = Some Increasing"
  by (simp add: growth_trajectory_def mean_recent_five mean_early_five length_five)

lemma sample_event_sentiment: "sentiment (sample_event a i s c l) = s"
  by (simp add: sample_event_def)

lemma positives_ten:
  "k \<le> 10 \<Longrightarrow> length (filter (\<lambda>e. sentiment e = ''Positive'') (ten_events k)) = k"
  "length (ten_events k) = k + (10 - k)"
  by (simp_all add: ten_events_def sample_event_sentiment)

subsection \<open>Properties of the analytics\<close>

lemma mset_map_perm: "mset xs = mset ys \<Longrightarrow> mset (map f xs) = mset (map f ys)"
  by (metis mset_map)

lemma series_get_perm:
  "mset xs = mset ys \<Longrightarrow> series_get (value_counts xs) = series_get (value_counts ys)"
  using count_list_perm [of xs ys] by (auto simp: series_get_value_counts fun_eq_iff)

lemma mset_distinct_values: "mset (distinct_values xs) = mset_set (set xs)"
  using mset_set_set [OF distinct_distinct_values [of xs]]
  by (simp add: set_distinct_values)

lemma value_counts_perm:
  assumes "mset xs = mset ys"
  shows "mset (value_counts xs) = mset (value_counts ys)"
proof -
  have "set xs = set ys" by (rule mset_eq_setD [OF assms])
  then have "mset (distinct_values xs) = mset (distinct_values ys)"
    by (simp add: mset_distinct_values)
  then show ?thesis
    unfolding value_counts_def mset_sort count_list_perm [OF assms] mset_map
    by (simp only:)
qed

lemma age_span_perm: "mset xs = mset ys \<Longrightarrow> age_span xs = age_span ys"
  using mset_eq_setD [OF mset_map_perm [of xs ys age]] by (simp add: age_span_def ages_def)

lemma correlation_perm: "mset xs = mset ys \<Longrightarrow> correlation xs = correlation ys"
  using series_corr_perm [of xs ys "\<lambda>e. real_of_int (age e)" "\<lambda>e. real_of_int (impact e)"]
  by (simp add: correlation_def ages_def impacts_def comp_def)

lemma most_common_category_perm:
  assumes "mset xs = mset ys"
  shows "most_common_category xs = most_common_category ys"
proof -
  have "(xs = []) = (ys = [])"
    using length_perm [OF assms] by auto
  then show ?thesis
    using mode_perm [OF mset_map_perm [OF assms, of category]]
    by (simp add: most_common_category_def)
qed

lemma category_counts_tied_events:
  "category_counts tied_events = [(event_categories ! 0, 1), (event_categories ! 2, 1)]"
  "category_counts (rev tied_events) = [(event_categories ! 2, 1), (event_categories ! 0, 1)]"
  using tied_categories_order(1)
  by (auto simp: category_counts_def value_counts_def distinct_values_def tied_events_def
      sample_event_def)

text \<open>
  Claim C9, as the code has it: for every permutation of the collection the analytics
  page computes the same count, mean impact, age span, top category, counts by age range
  and sentiment, and correlation of age and impact (floats being exact numbers here; the
  rounding of a float sum in another order is not covered). The \<open>value_counts\<close> tables
  of the categories and of the sentiments hold the same rows, hence the same count for
  every label, but rows with equal counts come in order of first appearance, which is
  the order of the collection.
\<close>

theorem visual_analytics_order_independent:
  assumes "mset xs = mset ys"
  shows "map_option total_events (visual_analytics xs)
           = map_option total_events (visual_analytics ys)
    \<and> map_option avg_impact (visual_analytics xs)
        = map_option avg_impact (visual_analytics ys)
    \<and> map_option span (visual_analytics xs) = map_option span (visual_analytics ys)
    \<and> map_option top_category (visual_analytics xs)
        = map_option top_category (visual_analytics ys)
    \<and> map_option counts_by_range (visual_analytics xs)
        = map_option counts_by_range (visual_analytics ys)
    \<and> map_option (\<lambda>a. mset (counts_by_category a)) (visual_analytics xs)
        = map_option (\<lambda>a. mset (counts_by_category a)) (visual_analytics ys)
    \<and> map_option (\<lambda>a. series_get (counts_by_category a)) (visual_analytics xs)
        = map_option (\<lambda>a. series_get (counts_by_category a)) (visual_analytics ys)
    \<and> map_option (\<lambda>a. mset (counts_by_sentiment a)) (visual_analytics xs)
        = map_option (\<lambda>a. mset (counts_by_sentiment a)) (visual_analytics ys)
    \<and> map_option (\<lambda>a. series_get (counts_by_sentiment a)) (visual_analytics xs)
        = map_option (\<lambda>a. series_get (counts_by_sentiment a)) (visual_analytics ys)
    \<and> map_option age_impact_correlation (visual_analytics xs)
        = map_option age_impact_correlation (visual_analytics ys)"
proof -
  have e: "(xs = []) = (ys = [])"
    using length_perm [OF assms] by auto
  have 1: "length xs = length ys" by (rule length_perm [OF assms])
  have 2: "mean (impacts xs) = mean (impacts ys)"
    unfolding impacts_def by (rule mean_perm [OF assms])
  have 3: "age_span xs = age_span ys" by (rule age_span_perm [OF assms])
  have 4: "most_common_category xs = most_common_category ys"
    by (rule most_common_category_perm [OF assms])
  have 5: "range_counts xs = range_counts ys"
    unfolding range_counts_def by (rule groupby_size_perm [OF mset_map_perm [OF assms]])
  have 6: "mset (category_counts xs) = mset (category_counts ys)"
    unfolding category_counts_def by (rule value_counts_perm [OF mset_map_perm [OF assms]])
  have 7: "series_get (category_counts xs) = series_get (category_counts ys)"
    unfolding category_counts_def by (rule series_get_perm [OF mset_map_perm [OF assms]])
  have 8: "mset (sentiment_counts xs) = mset (sentiment_counts ys)"
    unfolding sentiment_counts_def by (rule value_counts_perm [OF mset_map_perm [OF assms]])
  have 9: "series_get (sentiment_counts xs) = series_get (sentiment_counts ys)"
    unfolding sentiment_counts_def by (rule series_get_perm [OF mset_map_perm [OF assms]])
  have 10: "correlation xs = correlation ys" by (rule correlation_perm [OF assms])
  show ?thesis
    using e 1 2 3 4 5 6 7 8 9 10 by (simp add: visual_analytics_def)
qed

theorem visual_analytics_order_independent_witness:
  "map_option total_events (visual_analytics (rev three_events))
     = map_option total_events (visual_analytics three_events)
   \<and> map_option avg_impact (visual_analytics (rev three_events))
       = map_option avg_impact (visual_analytics three_events)
   \<and> map_option top_category (visual_analytics (rev three_events))
       = map_option top_category (visual_analytics three_events)
   \<and> map_option (\<lambda>a. mset (counts_by_category a)) (visual_analytics (rev three_events))
       = map_option (\<lambda>a. mset (counts_by_category a)) (visual_analytics three_events)
   \<and> map_option age_impact_correlation (visual_analytics (rev three_events))
       = map_option age_impact_correlation (visual_analytics three_events)"
  using visual_analytics_order_independent [of "rev three_events" three_events]
  by simp

text \<open>
  Two events with different categories, entered in one order and in the other: the same
  collection up to order, and the table of the categories lists them in the order entered,
  so the two snapshots differ.
\<close>

theorem visual_analytics_counterexample:
  "mset (rev tied_events) = mset tied_events
   \<and> map_option counts_by_category (visual_analytics tied_events)
       = Some [(event_categories ! 0, 1), (event_categories ! 2, 1)]
   \<and> map_option counts_by_category (visual_analytics (rev tied_events))
       = Some [(event_categories ! 2, 1), (event_categories ! 0, 1)]
   \<and> visual_analytics (rev tied_events) \<noteq> visual_analytics tied_events"
proof -
  have ne: "tied_events \<noteq> []" "rev tied_events \<noteq> []"
    by (simp_all add: tied_events_def)
  have a: "map_option counts_by_category (visual_analytics tied_events)
      = Some [(event_categories ! 0, 1), (event_categories ! 2, 1)]"
    using ne by (simp add: visual_analytics_def category_counts_tied_events)
  have b: "map_option counts_by_category (visual_analytics (rev tied_events))
      = Some [(event_categories ! 2, 1), (event_categories ! 0, 1)]"
    using ne by (simp add: visual_analytics_def category_counts_tied_events)
  have "map_option counts_by_category (visual_analytics (rev tied_events))
      \<noteq> map_option counts_by_category (visual_analytics tied_events)"
    unfolding a b using tied_categories_order(1) by simp
  then have "visual_analytics (rev tied_events) \<noteq> visual_analytics tied_events"
    by metis
  then show ?thesis using a b by simp
qed

text \<open>
  Claim C4, as the code has it: on a non-empty collection the top category and the
  dominant life area are the least, in Python's string order, of the values tied for the
  highest frequency: \<open>mode()\<close> returns the modes sorted and the script takes the first.
\<close>

theorem top_value_is_least_tied:
  "df \<noteq> [] \<Longrightarrow>
     most_common_category df = Inr (Min (tied (map category df)))
     \<and> top_area df = Inr (Min (tied (map life_area df)))"
  by (simp add: most_common_category_def top_area_def iloc0_mode)

theorem top_value_is_least_tied_witness:
  "most_common_category tied_events = Inr (Min (tied (map category tied_events)))
   \<and> top_area tied_events = Inr (Min (tied (map life_area tied_events)))"
  using top_value_is_least_tied [of tied_events]
  by (simp add: tied_events_def)

text \<open>
  Two events, one of the first category of the list and one of the third (its label starts
  with U+2764, below U+1F393): the script reports the third, the first of the enumeration
  is the first. Likewise \<open>Career\<close> wins over \<open>Personal Growth\<close>.
\<close>

theorem top_value_counterexample:
  "most_common_category tied_events = Inr (event_categories ! 2)
   \<and> spec_first_tied event_categories (map category tied_events) = Some (event_categories ! 0)
   \<and> event_categories ! 2 \<noteq> event_categories ! 0
   \<and> top_area tied_events = Inr ''Career''
   \<and> spec_first_tied life_area_options (map life_area tied_events) = Some ''Personal Growth''"
  using most_common_category_tied_events spec_first_tied_categories tied_categories_order(1) top_area_tied_events spec_first_tied_areas by simp

text \<open>
  Claim C6: the correlation the script shows is the Pearson coefficient of the ages and the
  impacts, and it is \<open>nan\<close> (undefined) when there are fewer than two events or when one of
  the two columns has no variance (its sum of squared deviations is zero). For the pairs
  (10,3), (25,9), (40,6) it is 0.5, and the mean impact is 6.
\<close>

theorem correlation_is_pearson:
  "correlation df =
     (if length df < 2 \<or> ssd (map real_of_int (ages df)) = 0 \<or> ssd (impacts df) = 0 then NaN
      else Float (pearson (map real_of_int (ages df)) (impacts df)))
   \<and> correlation three_events = Float (1 / 2)
   \<and> mean (impacts three_events) = Float 6"
proof -
  have "length (map real_of_int (ages df)) = length (impacts df)"
    by (simp add: ages_def impacts_def)
  from np_corrcoef_pearson [OF this]
  have "correlation df =
     (if length df < 2 \<or> ssd (map real_of_int (ages df)) = 0 \<or> ssd (impacts df) = 0 then NaN
      else Float (pearson (map real_of_int (ages df)) (impacts df)))"
    by (cases "df = []") (simp_all add: correlation_def series_corr_def ages_def)
  then show ?thesis
    using correlation_three mean_three_events by simp
qed

text \<open>
  Claim C7: the trajectory line exists exactly when there are at least 3 events. Then the
  recent group is 3 events of the collection such that no other event is older, the early
  group 3 events such that no other event is younger, and the result is Increasing when
  the mean impact of the recent group is strictly greater than that of the early group,
  Stabilizing otherwise. Ages 10..50 with impacts 2,2,2,8,8 give 6 against 2: Increasing.
\<close>

theorem growth_trajectory_spec:
  "(growth_trajectory df = None) = (length df < 3)
   \<and> (3 \<le> length df \<longrightarrow>
        length (recent_events df) = 3 \<and> length (early_events df) = 3
        \<and> mset (recent_events df) \<subseteq># mset df \<and> mset (early_events df) \<subseteq># mset df
        \<and> (\<forall>r\<in>set (recent_events df). \<forall>e\<in>#mset df - mset (recent_events df). age e \<le> age r)
        \<and> (\<forall>r\<in>set (early_events df). \<forall>e\<in>#mset df - mset (early_events df). age r \<le> age e)
        \<and> growth_trajectory df =
            Some (if sum_list (impacts (early_events df)) / 3
                      < sum_list (impacts (recent_events df)) / 3
                  then Increasing else Stabilizing))
   \<and> mean (impacts (recent_events five_events)) = Float 6
   \<and> mean (impacts (early_events five_events)) = Float 2
   \<and> growth_trajectory five_events = Some Increasing"
proof -
  have a: "(growth_trajectory df = None) = (length df < 3)"
    by (auto simp: growth_trajectory_def)
  have b: "length (recent_events df) = 3 \<and> length (early_events df) = 3" if "3 \<le> length df"
    using that
    by (simp add: recent_events_def early_events_def length_nlargest length_nsmallest)
  have c: "mset (recent_events df) \<subseteq># mset df \<and> mset (early_events df) \<subseteq># mset df"
    by (simp add: recent_events_def early_events_def nlargest_sub nsmallest_sub)
  have d: "\<forall>r\<in>set (recent_events df). \<forall>e\<in>#mset df - mset (recent_events df). age e \<le> age r"
    unfolding recent_events_def using nlargest_rest [of _ 3 age df] by blast
  have e: "\<forall>r\<in>set (early_events df). \<forall>e\<in>#mset df - mset (early_events df). age r \<le> age e"
    unfolding early_events_def using nsmallest_rest [of _ 3 age df] by blast
  show ?thesis
    using a b c d e growth_trajectory_eq [of df] mean_recent_five mean_early_five trajectory_five
    by (simp only: simp_thms) blast
qed

theorem growth_trajectory_spec_witness:
  "length (recent_events five_events) = 3
   \<and> length (early_events five_events) = 3
   \<and> mset (recent_events five_events) \<subseteq># mset five_events
   \<and> mset (early_events five_events) \<subseteq># mset five_events
   \<and> growth_trajectory five_events = Some Increasing"
proof -
  have "3 \<le> length five_events" by (simp add: length_five)
  with growth_trajectory_spec [of five_events] show ?thesis by blast
qed

lemma ten_events_nonempty: "ten_events k \<noteq> []"
  using positives_ten(2) [of k] by (cases "k \<le> 10") (auto simp: ten_events_def)

text \<open>
  Claim C8: on a non-empty collection the list of recommendations is computed without
  error and contains the mindset recommendation if and only if the fraction of events
  whose sentiment is Positive is strictly below 0.4. With 3 Positive events out of 10 it
  is there, with 5 out of 10 it is not.
\<close>

theorem rule1_fires_iff:
  "df \<noteq> [] \<Longrightarrow>
     (case recommendations df of
        Inl err \<Rightarrow> False
      | Inr recs \<Rightarrow>
          (mindset_recommendation \<in> set recs) =
            (real (length (filter (\<lambda>e. sentiment e = ''Positive'') df)) / real (length df)
               < 4 / 10))"
  using recommendations_rule1 [of df] by simp

theorem rule1_fires_iff_witness:
  "(case recommendations (ten_events 3) of
      Inl err \<Rightarrow> False | Inr recs \<Rightarrow> mindset_recommendation \<in> set recs)
   \<and> (case recommendations (ten_events 5) of
      Inl err \<Rightarrow> False | Inr recs \<Rightarrow> mindset_recommendation \<notin> set recs)"
  using rule1_fires_iff [of "ten_events 3"] rule1_fires_iff [of "ten_events 5"]
    ten_events_nonempty [of 3] ten_events_nonempty [of 5]
  by (simp add: positives_ten split: sum.splits)

end
